theory Spec2Isabelle
  imports Main "HOL-Library.Word"
begin

unbundle bit_operations_syntax

section \<open>Machine types\<close>

text \<open>
  The station runs on a 32-bit microcontroller. \<open>int32_t\<close> and \<open>int\<close> are 32-bit words read
  as two's complement through \<open>sint\<close>; their addition wraps around. A \<open>float\<close> is kept
  as its IEEE 754 bit pattern, so that "the same value" means "the same bits". A \<open>double\<close>
  occurs only inside expressions and is never stored or tested by the source: it is a
  64-bit word whose reading belongs to the platform.
\<close>

type_synonym u8 = "8 word"
type_synonym i32 = "32 word"
type_synonym u32 = "32 word"
type_synonym u64 = "64 word"
type_synonym f32 = "32 word"
type_synonym f64 = "64 word"

text \<open>\<open>isnan(x)\<close> on a binary32 pattern: exponent all ones and a non-zero fraction.\<close>

definition isnan :: "f32 \<Rightarrow> bool" where
  "isnan x \<longleftrightarrow> x AND 0x7F800000 = 0x7F800000 \<and> x AND 0x007FFFFF \<noteq> 0"

text \<open>A non-finite binary32 value (an infinity or a NaN): exponent all ones.\<close>

definition non_finite :: "f32 \<Rightarrow> bool" where
  "non_finite x \<longleftrightarrow> x AND 0x7F800000 = 0x7F800000"

text \<open>
  A \<open>float\<close> used as a condition (\<open>if (event.pressure and ...)\<close>) is converted to \<open>bool\<close>:
  false for +0.0 and -0.0, true for every other value, NaN and the infinities included.
\<close>

definition float_to_bool :: "f32 \<Rightarrow> bool" where
  "float_to_bool x \<longleftrightarrow> x AND 0x7FFFFFFF \<noteq> 0"

section \<open>The platform\<close>

text \<open>
  The chip has no floating-point unit: the arithmetic of \<open>float\<close> and \<open>double\<close>, the C library
  (\<open>pow\<close>, \<open>round\<close>, \<open>dtostrf\<close>, \<open>snprintf\<close>) and the JSON library are not part of the
  repository. They are parameters of the model, one field for each operation the source
  uses. Every theorem below holds for every platform.
\<close>

datatype json = JInt i32 | JStr string | JObj "(string \<times> json) list"

record platform =
  f_add :: "f32 \<Rightarrow> f32 \<Rightarrow> f32"
  f_mul :: "f32 \<Rightarrow> f32 \<Rightarrow> f32"
  f_div :: "f32 \<Rightarrow> f32 \<Rightarrow> f32"
  d_add :: "f64 \<Rightarrow> f64 \<Rightarrow> f64"
  d_mul :: "f64 \<Rightarrow> f64 \<Rightarrow> f64"
  d_div :: "f64 \<Rightarrow> f64 \<Rightarrow> f64"
  d_pow :: "f64 \<Rightarrow> f64 \<Rightarrow> f64"
  f_of_int :: "i32 \<Rightarrow> f32"
  d_of_int :: "i32 \<Rightarrow> f64"
  d_of_f :: "f32 \<Rightarrow> f64"
  f_of_d :: "f64 \<Rightarrow> f32"
  d_lit :: "string \<Rightarrow> f64"
  round_f :: "f32 \<Rightarrow> f32"
  round_d :: "f64 \<Rightarrow> f32"
  dtostrf :: "f64 \<Rightarrow> nat \<Rightarrow> nat \<Rightarrow> string"
  pct_space_H :: string
  json_printTo :: "nat \<Rightarrow> json \<Rightarrow> string"
  maxMQTTpackageSize :: nat

text \<open>
  \<^item> \<open>f_add\<close>, \<open>f_mul\<close>, \<open>f_div\<close>: \<open>+\<close>, \<open>*\<close>, \<open>/\<close> at type \<open>float\<close>; \<open>d_add\<close>, \<open>d_mul\<close>,
    \<open>d_div\<close>, \<open>d_pow\<close>: \<open>+\<close>, \<open>*\<close>, \<open>/\<close> and \<open>pow\<close> at type \<open>double\<close>.
  \<^item> \<open>f_of_int\<close>, \<open>d_of_int\<close>, \<open>d_of_f\<close>, \<open>f_of_d\<close>: the implicit and explicit conversions.
  \<^item> \<open>d_lit\<close>: the compiler's value for a decimal literal, given as written in the source.
  \<^item> \<open>round_f x\<close> is \<open>(float)(round(x))\<close> for a \<open>float\<close> argument, \<open>round_d x\<close> the same for
    a \<open>double\<close> argument.
  \<^item> \<open>dtostrf x width prec\<close>: the characters \<open>dtostrf\<close> writes, without the terminator.
  \<^item> \<open>pct_space_H\<close>: what \<open>snprintf\<close> emits for the characters \<open>% H\<close> of the report's format
    string, which are not a conversion of the C standard.
  \<^item> \<open>json_printTo n doc\<close>: the text \<open>printTo\<close> leaves in a buffer of \<open>n\<close> bytes for the
    document \<open>doc\<close> built in a \<open>StaticJsonBuffer\<close> of capacity \<open>n\<close>.
  \<^item> \<open>maxMQTTpackageSize\<close>: the \<open>extern const int\<close> of that name.
\<close>

section \<open>Constants of the header\<close>

definition HPA_TO_IN_MERCURY :: string where
  "HPA_TO_IN_MERCURY = ''.0295299830714''"

definition GRAVITATIONAL_ACCELERATION :: string where
  "GRAVITATIONAL_ACCELERATION = ''9.807''"

definition ATM_JOULES_PER_KILOGRAM_KELVIN :: string where
  "ATM_JOULES_PER_KILOGRAM_KELVIN = ''287.1''"

definition E_CONSTANT :: string where
  "E_CONSTANT = ''2.718281828182''"

text \<open>
  \<open>RECHECK_WEATHER_INTERVAL\<close> is the macro \<open>3*60*1000\<close>, written without parentheses. Both
  of its uses are expanded here as the preprocessor expands them.
\<close>

definition recheck_weather_interval :: u64 where
  "recheck_weather_interval = 3 * 60 * 1000"

text \<open>\<open>(RECHECK_WEATHER_INTERVAL/1000)*2\<close>, that is \<open>(3*60*1000/1000)*2\<close>.\<close>

definition alarm_window :: i32 where
  "alarm_window = (3 * 60 * 1000 div 1000) * 2"

section \<open>Data model\<close>

record WObservation =
  temperature :: f32
  humidity :: f32
  pressure :: f32
  day :: u8
  hour :: u8
  minute :: u8
  second :: u8
  epoch :: i32

record Alarm =
  timestamp :: i32
  rang :: bool

text \<open>
  What the engine does to the outside world, in order. The helper object that prints,
  publishes and sends is held by reference and is not part of these sources.
\<close>

datatype printable = PStr string | PI32 i32 | PU8 u8 | PU32 u32 | PF32 f32

datatype event =
    Serial printable
  | Publish string string
  | Twilio_message string string string string string
  | Ntp_begin
  | Ntp_update
  | Ntp_set_offset i32
  | Ntp_force_update

record station =
  last_observation :: WObservation
  last_weather_check :: u64
  next_alarm :: Alarm
  location_altitude :: i32
  time_zone_offset :: i32
  master_number :: string
  twilio_device_number :: string
  unit_type :: string
  shadow_topic :: string
  twilio_topic :: string
  trace :: "event list"

text \<open>
  Modelled from the spec: the three capabilities of the helper object, \<open>print_to_serial\<close>,
  \<open>publish_to_topic(topic, payload)\<close> and \<open>send_twilio_message(topic, destination, source,
  body, media_url)\<close>. Each call is recorded at the end of the trace and changes nothing else.
\<close>

definition print_to_serial :: "printable \<Rightarrow> station \<Rightarrow> station" where
  "print_to_serial x st = st\<lparr>trace := trace st @ [Serial x]\<rparr>"

definition publish_to_topic :: "string \<Rightarrow> string \<Rightarrow> station \<Rightarrow> station" where
  "publish_to_topic topic payload st = st\<lparr>trace := trace st @ [Publish topic payload]\<rparr>"

definition send_twilio_message ::
  "string \<Rightarrow> string \<Rightarrow> string \<Rightarrow> string \<Rightarrow> string \<Rightarrow> station \<Rightarrow> station" where
  "send_twilio_message topic to_number from_number body media st =
     st\<lparr>trace := trace st @ [Twilio_message topic to_number from_number body media]\<rparr>"

text \<open>The calls on the time client that change its state are recorded in the same way.\<close>

definition time_client :: "event \<Rightarrow> station \<Rightarrow> station" where
  "time_client e st = st\<lparr>trace := trace st @ [e]\<rparr>"

text \<open>The outbound events of a trace: shadow publishes and messages.\<close>

fun is_outbound :: "event \<Rightarrow> bool" where
  "is_outbound (Publish topic payload) = True"
| "is_outbound (Twilio_message topic to_number from_number body media) = True"
| "is_outbound e = False"

definition outbound :: "event list \<Rightarrow> event list" where
  "outbound tr = filter is_outbound tr"

section \<open>Unit conversions\<close>

text \<open>\<open>(float)(round((celsius*9/5*1000) + 32000)) / 1000\<close>, all at type \<open>float\<close>.\<close>

definition celsius_to_fahrenheit :: "platform \<Rightarrow> f32 \<Rightarrow> f32" where
  "celsius_to_fahrenheit P celsius =
     f_div P
       (round_f P
          (f_add P
             (f_mul P (f_div P (f_mul P celsius (f_of_int P 9)) (f_of_int P 5)) (f_of_int P 1000))
             (f_of_int P 32000)))
       (f_of_int P 1000)"

text \<open>
  \<open>(float)(round(HPA_TO_IN_MERCURY * hpa * 1000)) / 1000\<close>: the product is a \<open>double\<close>,
  the quotient a \<open>float\<close>.
\<close>

definition hpa_to_in_mercury :: "platform \<Rightarrow> f32 \<Rightarrow> f32" where
  "hpa_to_in_mercury P hpa =
     f_div P
       (round_d P
          (d_mul P (d_mul P (d_lit P HPA_TO_IN_MERCURY) (d_of_f P hpa)) (d_of_int P 1000)))
       (f_of_int P 1000)"

text \<open>\<open>(float)(round(25.4 * inches * 1000)) / 1000\<close>.\<close>

definition in_to_mm :: "platform \<Rightarrow> f32 \<Rightarrow> f32" where
  "in_to_mm P inches =
     f_div P
       (round_d P (d_mul P (d_mul P (d_lit P ''25.4'') (d_of_f P inches)) (d_of_int P 1000)))
       (f_of_int P 1000)"

text \<open>
  The conversion of station pressure to sea level. Its third parameter \<open>altitude\<close> is never
  read: the body uses the member \<open>location_altitude\<close>.
\<close>

definition hpa_to_sea_level :: "platform \<Rightarrow> station \<Rightarrow> f32 \<Rightarrow> f32 \<Rightarrow> i32 \<Rightarrow> f32" where
  "hpa_to_sea_level P st celsius hpa altitude =
     (let kelvin = f_of_d P (d_add P (d_lit P ''273.1'') (d_of_f P celsius));
          scale_height =
            f_of_d P
              (d_div P
                 (d_mul P (d_lit P ATM_JOULES_PER_KILOGRAM_KELVIN) (d_of_f P kelvin))
                 (d_lit P GRAVITATIONAL_ACCELERATION));
          adjusted_pressure =
            f_mul P hpa
              (f_of_d P
                 (d_pow P (d_lit P E_CONSTANT)
                    (d_of_f P (f_div P (f_of_int P (location_altitude st)) scale_height))))
      in f_div P (round_f P (f_mul P adjusted_pressure (f_of_int P 1000))) (f_of_int P 1000))"

section \<open>Faults\<close>

text \<open>
  Two operations of the report composer have no defined result in C++ on some inputs: the
  day-name table read outside its seven entries, and \<open>dtostrf\<close> writing more characters
  than its nine-byte buffer holds. The model returns a fault there instead of a value.
\<close>

datatype fault = Index_fault | Buffer_overrun

section \<open>Text helpers\<close>

definition newline :: string where
  "newline = [CHR 0x0A]"

definition crlf :: string where
  "crlf = [CHR 0x0D, CHR 0x0A]"

text \<open>The decimal digits \<open>%i\<close> prints for a non-negative argument.\<close>

fun dec :: "nat \<Rightarrow> string" where
  "dec n = (if n < 10 then [''0123456789'' ! n] else dec (n div 10) @ [''0123456789'' ! (n mod 10)])"

declare dec.simps [simp del]

text \<open>
  \<open>snprintf(buf, n, ...)\<close> stores at most \<open>n - 1\<close> characters of the formatted text and a
  terminator; \<open>String(buf)\<close> then reads them back.
\<close>

definition snprintf :: "nat \<Rightarrow> string \<Rightarrow> string" where
  "snprintf n formatted = take (n - 1) formatted"

text \<open>\<open>dtostrf\<close> into a fresh zeroed buffer of \<open>cap\<close> bytes.\<close>

definition dtostrf_into :: "platform \<Rightarrow> nat \<Rightarrow> f64 \<Rightarrow> nat \<Rightarrow> nat \<Rightarrow> fault + string" where
  "dtostrf_into P cap x width prec =
     (let s = dtostrf P x width prec in if length s < cap then Inr s else Inl Buffer_overrun)"

definition print_all :: "printable list \<Rightarrow> station \<Rightarrow> station" where
  "print_all xs st = fold print_to_serial xs st"

section \<open>Operations\<close>

text \<open>
  The source's private methods start with an underscore (\<open>_handle_alarm\<close>,
  \<open>_hpa_to_sea_level\<close>, ...); the names here drop it.
\<close>

definition day_names :: "string list" where
  "day_names = [''Sun.'', ''Mon.'', ''Tue.'', ''Wed.'', ''Thu.'', ''Fri.'', ''Sat.'']"

definition int_to_day :: "int \<Rightarrow> fault + string" where
  "int_to_day int_day =
     (if 0 \<le> int_day \<and> int_day < 7 then Inr (day_names ! nat int_day) else Inl Index_fault)"

definition shadow_document ::
  "string \<Rightarrow> i32 \<Rightarrow> string \<Rightarrow> i32 \<Rightarrow> i32 \<Rightarrow> string \<Rightarrow> string \<Rightarrow> json" where
  "shadow_document part alarm units alt tz tnum mnum =
     JObj [(''state'',
       JObj [(part,
         JObj [(''alarm'', JInt alarm), (''units'', JStr units), (''alt'', JInt alt),
               (''tz'', JInt tz), (''t_num'', JStr tnum), (''m_num'', JStr mnum)])])]"

definition report_shadow_state :: "platform \<Rightarrow> string \<Rightarrow> station \<Rightarrow> station" where
  "report_shadow_state P topic st =
     (let buffer = json_printTo P (maxMQTTpackageSize P)
                     (shadow_document ''reported'' (timestamp (next_alarm st)) (unit_type st)
                        (location_altitude st) (time_zone_offset st)
                        (twilio_device_number st) (master_number st))
      in publish_to_topic topic buffer (print_to_serial (PStr buffer) st))"

definition update_shadow_state ::
  "platform \<Rightarrow> string \<Rightarrow> i32 \<Rightarrow> string \<Rightarrow> i32 \<Rightarrow> i32 \<Rightarrow> string \<Rightarrow> string \<Rightarrow> station \<Rightarrow> station" where
  "update_shadow_state P topic new_alarm new_units new_alt new_tz new_tnum new_mnum st =
     (let buffer = json_printTo P (maxMQTTpackageSize P)
                     (shadow_document ''desired'' new_alarm new_units new_alt new_tz
                        new_tnum new_mnum)
      in publish_to_topic topic buffer (print_to_serial (PStr buffer) st))"

definition update_alarm :: "i32 \<Rightarrow> station \<Rightarrow> station" where
  "update_alarm alarm_in st =
     (if timestamp (next_alarm st) = alarm_in then st
      else
        let st1 =
              (if sint alarm_in < sint (epoch (last_observation st)) \<or> alarm_in = 0
               then st\<lparr>next_alarm := (next_alarm st)\<lparr>rang := True\<rparr>\<rparr>
               else st\<lparr>next_alarm := (next_alarm st)\<lparr>rang := False\<rparr>\<rparr>);
            st2 = st1\<lparr>next_alarm := (next_alarm st1)\<lparr>timestamp := alarm_in\<rparr>\<rparr>
        in print_all
             [PStr ''Alarm updated to: '', PI32 (timestamp (next_alarm st2)), PStr crlf] st2)"

text \<open>The text \<open>Unit type must be 'imperial' or 'metric'\<close>, followed by CR LF.\<close>

definition unit_type_message :: string where
  "unit_type_message =
     ''Unit type must be '' @ [CHR 0x27] @ ''imperial'' @ [CHR 0x27] @ '' or '' @
     [CHR 0x27] @ ''metric'' @ [CHR 0x27] @ crlf"

text \<open>
  \<open>update_units\<close> is declared \<open>void\<close>: the first component of the result is what the
  caller is handed back, the second the station afterwards.
\<close>

definition update_units :: "string \<Rightarrow> station \<Rightarrow> unit \<times> station" where
  "update_units units_in st =
     (if units_in = ''imperial'' \<or> units_in = ''metric'' then
        (let st1 = st\<lparr>unit_type := units_in\<rparr>
         in ((), print_all [PStr ''Units updated to: '', PStr (unit_type st1), PStr crlf] st1))
      else ((), print_to_serial (PStr unit_type_message) st))"

definition update_alt :: "i32 \<Rightarrow> station \<Rightarrow> station" where
  "update_alt alt_in st =
     (let st1 = st\<lparr>location_altitude := alt_in\<rparr>
      in print_all [PStr ''Altitude updated to: '', PI32 (location_altitude st1), PStr crlf] st1)"

definition update_tz :: "i32 \<Rightarrow> station \<Rightarrow> station" where
  "update_tz tz_in st =
     (let st1 = st\<lparr>time_zone_offset := tz_in\<rparr>;
          st2 = print_all
                  [PStr ''Timezone offset set to: '', PI32 (time_zone_offset st1), PStr crlf] st1
      in time_client Ntp_force_update
           (time_client (Ntp_set_offset (time_zone_offset st2 * 60)) st2))"

definition update_tnum :: "string \<Rightarrow> station \<Rightarrow> station" where
  "update_tnum tnum_in st =
     (let st1 = st\<lparr>twilio_device_number := tnum_in\<rparr>
      in print_all
           [PStr ''Device number updated to: '', PStr (twilio_device_number st1), PStr crlf] st1)"

definition update_mnum :: "string \<Rightarrow> station \<Rightarrow> station" where
  "update_mnum mnum_in st =
     (let st1 = st\<lparr>master_number := mnum_in\<rparr>
      in print_all
           [PStr ''Master number updated to: '', PStr (master_number st1), PStr crlf] st1)"

subsection \<open>The weather report\<close>

text \<open>
  The expansion of the format string
  \<open>"%sConditions as of %s %i:%i:%i\n%s *%s\n%s % Humidity\n%s hPc (%s %s Hg)\n"\<close>
  for its eleven arguments, before \<open>snprintf\<close> cuts it.
\<close>

definition report_format ::
  "platform \<Rightarrow> string \<Rightarrow> string \<Rightarrow> nat \<Rightarrow> nat \<Rightarrow> nat \<Rightarrow> string \<Rightarrow> string \<Rightarrow> string \<Rightarrow>
     string \<Rightarrow> string \<Rightarrow> string \<Rightarrow> string" where
  "report_format P intro day_name h m s temperature_s f_or_c humidity_s pressure_s
       pressure_conv in_or_mm =
     intro @ ''Conditions as of '' @ day_name @ '' '' @ dec h @ '':'' @ dec m @ '':'' @ dec s @
     newline @ temperature_s @ '' *'' @ f_or_c @ newline @
     humidity_s @ '' '' @ pct_space_H P @ ''umidity'' @ newline @
     pressure_s @ '' hPc ('' @ pressure_conv @ '' '' @ in_or_mm @ '' Hg)'' @ newline"

definition get_weather_report :: "platform \<Rightarrow> string \<Rightarrow> station \<Rightarrow> fault + string" where
  "get_weather_report P intro st =
     (let slvl_press =
            hpa_to_sea_level P st (humidity (last_observation st))
              (pressure (last_observation st)) (location_altitude st)
      in
      case dtostrf_into P 9 (d_of_f P (humidity (last_observation st))) 8 2 of
        Inl e \<Rightarrow> Inl e
      | Inr humidity_s \<Rightarrow>
      case dtostrf_into P 9 (d_of_f P slvl_press) 8 2 of
        Inl e \<Rightarrow> Inl e
      | Inr pressure_s \<Rightarrow>
      case
        (if unit_type st = ''imperial'' then
           case dtostrf_into P 9
                  (d_of_f P (celsius_to_fahrenheit P (temperature (last_observation st)))) 8 2 of
             Inl e \<Rightarrow> Inl e
           | Inr temperature_s \<Rightarrow>
           case dtostrf_into P 9 (d_of_f P (hpa_to_in_mercury P slvl_press)) 8 2 of
             Inl e \<Rightarrow> Inl e
           | Inr pressure_conv \<Rightarrow> Inr (temperature_s, pressure_conv, ''F'', ''in'')
         else
           case dtostrf_into P 9 (d_of_f P (temperature (last_observation st))) 8 2 of
             Inl e \<Rightarrow> Inl e
           | Inr temperature_s \<Rightarrow>
           case dtostrf_into P 9
                  (d_of_f P (in_to_mm P (hpa_to_in_mercury P slvl_press))) 8 2 of
             Inl e \<Rightarrow> Inl e
           | Inr pressure_conv \<Rightarrow> Inr (temperature_s, pressure_conv, ''C'', ''mm''))
      of
        Inl e \<Rightarrow> Inl e
      | Inr (temperature_s, pressure_conv, f_or_c, in_or_mm) \<Rightarrow>
      case int_to_day (uint (day (last_observation st))) of
        Inl e \<Rightarrow> Inl e
      | Inr day_name \<Rightarrow>
          Inr (snprintf 160
                 (report_format P intro day_name
                    (unat (hour (last_observation st)))
                    (unat (minute (last_observation st)))
                    (unat (second (last_observation st)))
                    temperature_s f_or_c humidity_s pressure_s pressure_conv in_or_mm)))"

subsection \<open>The firing transition\<close>

definition handle_alarm :: "platform \<Rightarrow> station \<Rightarrow> fault + station" where
  "handle_alarm P st =
     (let st1 = update_shadow_state P (shadow_topic st) (timestamp (next_alarm st) + 86400)
                  (unit_type st) (location_altitude st) (time_zone_offset st)
                  (twilio_device_number st) (master_number st) st;
          st2 = st1\<lparr>next_alarm := (next_alarm st1)\<lparr>rang := True\<rparr>\<rparr>
      in case get_weather_report P (''Daily Report!'' @ newline) st2 of
           Inl e \<Rightarrow> Inl e
         | Inr weather_string \<Rightarrow>
             Inr (send_twilio_message (twilio_topic st2) (master_number st2)
                    (twilio_device_number st2) weather_string [] st2))"

subsection \<open>Sampling\<close>

text \<open>
  What the sensors and the time client answer during one call of \<open>make_observation\<close>:
  the pressure event, the two readings of the humidity sensor, the temperature of the
  pressure sensor, and the calendar fields and epoch of the time client.
\<close>

record readings =
  event_pressure :: f32
  dht_humidity :: f32
  dht_temperature :: f32
  bmp_temperature :: f32
  ntp_day :: i32
  ntp_hours :: i32
  ntp_minutes :: i32
  ntp_seconds :: i32
  ntp_epoch :: u32

text \<open>The condition of the \<open>if\<close> that guards the update.\<close>

definition sensors_ok :: "readings \<Rightarrow> bool" where
  "sensors_ok r \<longleftrightarrow>
     float_to_bool (event_pressure r) \<and> \<not> (isnan (dht_humidity r) \<or> isnan (dht_temperature r))"

text \<open>The observation the success branch stores, field by field.\<close>

definition observe :: "platform \<Rightarrow> readings \<Rightarrow> WObservation" where
  "observe P r =
     \<lparr>temperature = f_div P (f_add P (dht_temperature r) (bmp_temperature r)) (f_of_int P 2),
      humidity = dht_humidity r,
      pressure = event_pressure r,
      day = ucast (ntp_day r),
      hour = ucast (ntp_hours r),
      minute = ucast (ntp_minutes r),
      second = ucast (ntp_seconds r),
      epoch = ntp_epoch r\<rparr>"

text \<open>
  \<open>make_observation(obs)\<close> with \<open>obs\<close> bound to the member \<open>last_observation\<close>, as in both
  calls of the source (the constructor and \<open>yield\<close>); the member is private, so no other
  caller can pass it. The writes through \<open>obs\<close> are writes to the member.
\<close>

definition make_observation :: "platform \<Rightarrow> readings \<Rightarrow> station \<Rightarrow> fault + station" where
  "make_observation P r st =
     (if sensors_ok r then
        (let st1 = st\<lparr>last_observation := observe P r\<rparr>
         in if \<not> rang (next_alarm st1) then
              (if sint (timestamp (next_alarm st1)) < sint (epoch (last_observation st1)) \<and>
                  sint (epoch (last_observation st1)) <
                    sint (timestamp (next_alarm st1) + alarm_window)
               then handle_alarm P (print_to_serial (PStr (''We just hit an alarm!'' @ crlf)) st1)
               else Inr st1)
            else Inr st1)
      else
        Inr (print_to_serial (PStr crlf)
               (print_to_serial (PStr ''Sensor errors!  Please check your board.'') st)))"

definition print_observation :: "platform \<Rightarrow> string \<Rightarrow> WObservation \<Rightarrow> station \<Rightarrow> station" where
  "print_observation P formatted_time obs st =
     print_all
       [PStr ''Time is currently: '', PStr formatted_time, PStr ''('', PI32 (epoch obs),
        PStr ('')'' @ crlf),
        PStr ''Timestamp: '', PU8 (day obs), PStr '' '', PU8 (hour obs), PStr '':'',
        PU8 (minute obs), PStr '':'', PU8 (second obs),
        PStr '' Pressure: '', PF32 (pressure obs), PStr '' hPa at sea level, '',
        PF32 (hpa_to_in_mercury P
                (hpa_to_sea_level P st (temperature obs) (pressure obs) (location_altitude st))),
        PStr '' inhg at sea level, '',
        PStr ''Temperature: '', PF32 (temperature obs), PStr '' *C, '',
        PF32 (celsius_to_fahrenheit P (temperature obs)), PStr '' *F, '',
        PStr ''Humidity: '', PF32 (humidity obs), PStr '' %'', PStr crlf]
       st"

subsection \<open>The heartbeat\<close>

text \<open>
  What one call of \<open>yield\<close> reads from outside: the two values of \<open>millis()\<close>, the two
  values of the free heap, the sensors, and the formatted time.
\<close>

record tick =
  millis_check :: u32
  millis_stamp :: u32
  free_heap_before :: u32
  free_heap_after :: u32
  sensors :: readings
  formatted_time :: string

definition yield :: "platform \<Rightarrow> tick \<Rightarrow> station \<Rightarrow> fault + station" where
  "yield P t st =
     (let st0 = time_client Ntp_update st
      in if last_weather_check st0 + recheck_weather_interval < ucast (millis_check t) then
           (let st1 = print_all
                        [PStr ''BEFORE Remaining Heap Size: '', PU32 (free_heap_before t),
                         PStr crlf] st0;
                st2 = st1\<lparr>last_weather_check := ucast (millis_stamp t)\<rparr>
            in case make_observation P (sensors t) st2 of
                 Inl e \<Rightarrow> Inl e
               | Inr st3 \<Rightarrow>
                   Inr (print_all
                          [PStr ''AFTER Remaining Heap Size: '', PU32 (free_heap_after t),
                           PStr crlf]
                          (print_observation P (formatted_time t) (last_observation st3) st3)))
         else Inr st0)"

subsection \<open>The constructor\<close>

record sensor_t =
  name :: string
  version :: i32
  sensor_id :: i32
  max_value :: f32
  min_value :: f32
  resolution :: f32

definition display_bmp_sensor_details :: "sensor_t \<Rightarrow> station \<Rightarrow> station" where
  "display_bmp_sensor_details sensor st =
     print_all
       [PStr (''------------------------------------'' @ crlf),
        PStr ''BMP Sensor:       '', PStr (name sensor), PStr crlf,
        PStr ''Driver Ver:   '', PI32 (version sensor), PStr crlf,
        PStr ''Unique ID:    '', PI32 (sensor_id sensor), PStr crlf,
        PStr ''Max Value:    '', PF32 (max_value sensor), PStr '' hPa'', PStr crlf,
        PStr ''Min Value:    '', PF32 (min_value sensor), PStr '' hPa'', PStr crlf,
        PStr ''Resolution:   '', PF32 (resolution sensor), PStr '' hPa'', PStr crlf,
        PStr (''------------------------------------'' @ crlf)]
       st"

text \<open>
  The arguments of the constructor that the engine keeps, and what it reads from outside
  while it runs: whether the pressure sensor started, its description, \<open>millis()\<close>, the
  first readings and the formatted time.
\<close>

record boot =
  time_zone_offset_in :: i32
  altitude_in :: i32
  next_alarm_in :: i32
  master_device_number_in :: string
  twilio_device_number_in :: string
  unit_type_in :: string
  twilio_topic_in :: string
  shadow_topic_in :: string
  bmp_begin :: bool
  bmp_sensor :: sensor_t
  boot_millis :: u32
  boot_sensors :: readings
  boot_formatted_time :: string

definition wiring_message :: string where
  "wiring_message =
     ''Check your I2C Wiring, we can'' @ [CHR 0x27] @
     ''t accessthe Barometric Pressure Sensor.''"

definition constructor :: "platform \<Rightarrow> boot \<Rightarrow> fault + station" where
  "constructor P b =
     (let st0 =
            \<lparr>last_observation =
               \<lparr>temperature = 0, humidity = 0, pressure = 0, day = 0, hour = 0, minute = 0,
                second = 0, epoch = 0\<rparr>,
             last_weather_check = 0,
             next_alarm = \<lparr>timestamp = 0, rang = True\<rparr>,
             location_altitude = altitude_in b,
             time_zone_offset = time_zone_offset_in b,
             master_number = master_device_number_in b,
             twilio_device_number = twilio_device_number_in b,
             unit_type = unit_type_in b,
             shadow_topic = shadow_topic_in b,
             twilio_topic = twilio_topic_in b,
             trace = []\<rparr>;
          st1 = (if \<not> bmp_begin b then print_to_serial (PStr wiring_message) st0 else st0);
          st2 = display_bmp_sensor_details (bmp_sensor b) st1;
          st3 = time_client Ntp_update (time_client Ntp_begin st2);
          st4 = st3\<lparr>last_weather_check := ucast (boot_millis b)\<rparr>;
          st5 = st4\<lparr>next_alarm := \<lparr>timestamp = 0, rang = True\<rparr>\<rparr>;
          st6 = update_alarm (next_alarm_in b) st5
      in case make_observation P (boot_sensors b) st6 of
           Inl e \<Rightarrow> Inl e
         | Inr st7 \<Rightarrow>
             Inr (print_observation P (boot_formatted_time b) (last_observation st7) st7))"

subsection \<open>Reachable states\<close>

text \<open>
  The states an engine can be in: the constructor's result, and from there any public
  operation that returns. \<open>get_weather_report\<close> and \<open>int_to_day\<close> do not change the state.
\<close>

inductive reachable :: "platform \<Rightarrow> station \<Rightarrow> bool" for P :: platform where
  r_constructor: "constructor P b = Inr st \<Longrightarrow> reachable P st"
| r_yield: "reachable P st \<Longrightarrow> yield P t st = Inr st' \<Longrightarrow> reachable P st'"
| r_make_observation:
    "reachable P st \<Longrightarrow> make_observation P r st = Inr st' \<Longrightarrow> reachable P st'"
| r_print_observation:
    "reachable P st \<Longrightarrow> reachable P (print_observation P ft obs st)"
| r_update_alarm: "reachable P st \<Longrightarrow> reachable P (update_alarm alarm_in st)"
| r_update_units: "reachable P st \<Longrightarrow> reachable P (snd (update_units units_in st))"
| r_update_alt: "reachable P st \<Longrightarrow> reachable P (update_alt alt_in st)"
| r_update_tz: "reachable P st \<Longrightarrow> reachable P (update_tz tz_in st)"
| r_update_tnum: "reachable P st \<Longrightarrow> reachable P (update_tnum tnum_in st)"
| r_update_mnum: "reachable P st \<Longrightarrow> reachable P (update_mnum mnum_in st)"
| r_report_shadow_state: "reachable P st \<Longrightarrow> reachable P (report_shadow_state P topic st)"
| r_update_shadow_state:
    "reachable P st \<Longrightarrow>
     reachable P (update_shadow_state P topic new_alarm new_units new_alt new_tz new_tnum
                    new_mnum st)"

text \<open>Samples taken one after the other, stopping at the first fault.\<close>

fun run_samples :: "platform \<Rightarrow> readings list \<Rightarrow> station \<Rightarrow> fault + station" where
  "run_samples P [] st = Inr st"
| "run_samples P (r # rs) st =
     (case make_observation P r st of Inl e \<Rightarrow> Inl e | Inr st' \<Rightarrow> run_samples P rs st')"

section \<open>A platform instance and sample inputs\<close>

text \<open>
  The general theorems are stated for every platform. To run the model on concrete inputs
  a platform has to be chosen: \<open>demo\<close> prints every number as \<open>0.00\<close> in a field of
  eight and computes every arithmetic result as +0.0, emits \<open>H\<close> for \<open>% H\<close>, and prints
  JSON without escapes into a buffer of 512 bytes. Only the closed instances further down
  mention it, and what they show about the alarm, the branch taken and the events does not
  depend on the numbers it computes.
\<close>

definition dec_int :: "int \<Rightarrow> string" where
  "dec_int i = (if i < 0 then ''-'' @ dec (nat (- i)) else dec (nat i))"

fun render :: "json \<Rightarrow> string" and render_members :: "(string \<times> json) list \<Rightarrow> string" where
  "render (JInt n) = dec_int (sint n)"
| "render (JStr s) = [CHR 0x22] @ s @ [CHR 0x22]"
| "render (JObj ms) = ''{'' @ render_members ms @ ''}''"
| "render_members [] = []"
| "render_members ((k, v) # ms) =
     [CHR 0x22] @ k @ [CHR 0x22] @ '':'' @ render v @
     (if ms = [] then [] else '','' @ render_members ms)"

definition demo :: platform where
  "demo =
     \<lparr>f_add = (\<lambda>a b. 0), f_mul = (\<lambda>a b. 0), f_div = (\<lambda>a b. 0),
      d_add = (\<lambda>a b. 0), d_mul = (\<lambda>a b. 0), d_div = (\<lambda>a b. 0), d_pow = (\<lambda>a b. 0),
      f_of_int = (\<lambda>i. 0), d_of_int = (\<lambda>i. 0), d_of_f = (\<lambda>x. 0), f_of_d = (\<lambda>x. 0),
      d_lit = (\<lambda>s. 0), round_f = (\<lambda>x. 0), round_d = (\<lambda>x. 0),
      dtostrf = (\<lambda>x width prec. ''    0.00''),
      pct_space_H = ''H'',
      json_printTo = (\<lambda>n doc. take (n - 1) (render doc)),
      maxMQTTpackageSize = 512\<rparr>"

text \<open>
  Readings of working sensors at epoch \<open>e\<close>: 1013.25 hPa, 50 percent humidity, 20 and 21
  degrees, Wednesday 12:30:15.
\<close>

definition good_readings :: "u32 \<Rightarrow> readings" where
  "good_readings e =
     \<lparr>event_pressure = 0x447D5000, dht_humidity = 0x42480000, dht_temperature = 0x41A00000,
      bmp_temperature = 0x41A80000, ntp_day = 3, ntp_hours = 12, ntp_minutes = 30,
      ntp_seconds = 15, ntp_epoch = e\<rparr>"

text \<open>The same readings with a NaN (0x7FC00000) as the pressure.\<close>

definition nan_pressure_readings :: "u32 \<Rightarrow> readings" where
  "nan_pressure_readings e = (good_readings e)\<lparr>event_pressure := 0x7FC00000\<rparr>"

text \<open>The same readings with a NaN as the humidity.\<close>

definition nan_humidity_readings :: "u32 \<Rightarrow> readings" where
  "nan_humidity_readings e = (good_readings e)\<lparr>dht_humidity := 0x7FC00000\<rparr>"

text \<open>
  A station whose last observation was taken at epoch \<open>e\<close>, with the alarm at \<open>t\<close> and the
  flag \<open>rg\<close>, and an empty trace.
\<close>

definition sample_station :: "i32 \<Rightarrow> bool \<Rightarrow> i32 \<Rightarrow> station" where
  "sample_station t rg e =
     \<lparr>last_observation =
        \<lparr>temperature = 0x41A40000, humidity = 0x42480000, pressure = 0x447D5000, day = 3,
         hour = 12, minute = 27, second = 15, epoch = e\<rparr>,
      last_weather_check = 0,
      next_alarm = \<lparr>timestamp = t, rang = rg\<rparr>,
      location_altitude = 120,
      time_zone_offset = - 300,
      master_number = ''+15550100'',
      twilio_device_number = ''+15550199'',
      unit_type = ''metric'',
      shadow_topic = ''shadow/update'',
      twilio_topic = ''twilio'',
      trace = []\<rparr>"

definition sample_boot :: boot where
  "sample_boot =
     \<lparr>time_zone_offset_in = - 300, altitude_in = 120, next_alarm_in = 1000,
      master_device_number_in = ''+15550100'', twilio_device_number_in = ''+15550199'',
      unit_type_in = ''metric'', twilio_topic_in = ''twilio'',
      shadow_topic_in = ''shadow/update'', bmp_begin = True,
      bmp_sensor =
        \<lparr>name = ''BMP085'', version = 1, sensor_id = 10180, max_value = 0x44898000,
         min_value = 0x43960000, resolution = 0x3C23D70A\<rparr>,
      boot_millis = 2000, boot_sensors = good_readings 900,
      boot_formatted_time = ''12:30:15''\<rparr>"

section \<open>A platform with fixed-point arithmetic\<close>

text \<open>
  A second platform, on which the arithmetic depends on its arguments. \<open>bench\<close> reads a
  finite \<open>float\<close> pattern as a count of millionths (truncating), computes on these counts,
  and writes the result back as the \<open>float\<close> pattern at or just below it. A \<open>double\<close> on
  \<open>bench\<close> is the count of millionths itself, as a 64-bit two's-complement word. \<open>pow\<close>
  is the Taylor polynomial of degree four of the exponential, with the logarithm of the
  base taken to first order around Euler's number; literals are looked up in a table of
  the six the source contains; \<open>dtostrf\<close> rounds to the requested decimals and pads on
  the left to the requested width, which is a minimum and not a maximum.
\<close>

fun bit_length :: "int \<Rightarrow> nat" where
  "bit_length n = (if n \<le> 0 then 0 else Suc (bit_length (n div 2)))"

declare bit_length.simps [simp del]

definition decode32 :: "f32 \<Rightarrow> int" where
  "decode32 w =
     (let e = unat (drop_bit 23 w AND 0xFF);
          m = uint (w AND 0x7FFFFF);
          mag = (if 150 \<le> e then (8388608 + m) * 1000000 * 2 ^ (e - 150)
                 else (8388608 + m) * 1000000 div 2 ^ (150 - e))
      in if e = 0 \<or> e = 255 then 0 else if bit w 31 then - mag else mag)"

definition encode32 :: "int \<Rightarrow> f32" where
  "encode32 n =
     (let b = \<bar>n\<bar> * 2 ^ 40 div 1000000;
          len = bit_length b;
          mant = (if 24 \<le> len then b div 2 ^ (len - 24) else b * 2 ^ (24 - len))
      in if len = 0 then 0
         else (if n < 0 then 0x80000000 else 0) OR push_bit 23 (of_nat (len + 86)) OR
              word_of_int (mant - 8388608))"

definition fx_mul :: "int \<Rightarrow> int \<Rightarrow> int" where
  "fx_mul a b = a * b div 1000000"

definition fx_div :: "int \<Rightarrow> int \<Rightarrow> int" where
  "fx_div a b = (if b = 0 then 0 else a * 1000000 div b)"

definition fx_round :: "int \<Rightarrow> int" where
  "fx_round n =
     (if 0 \<le> n then (n + 500000) div 1000000 * 1000000
      else - ((- n + 500000) div 1000000 * 1000000))"

definition fx_pow :: "int \<Rightarrow> int \<Rightarrow> int" where
  "fx_pow a b =
     (let x = fx_mul (1000000 + fx_div (a - 2718282) 2718282) b;
          x2 = fx_mul x x; x3 = fx_mul x2 x; x4 = fx_mul x3 x
      in 1000000 + x + x2 div 2 + x3 div 6 + x4 div 24)"

definition fx_lit :: "string \<Rightarrow> int" where
  "fx_lit s =
     (case map_of
        [(''273.1'', 273100000), (''287.1'', 287100000), (''9.807'', 9807000),
         (''2.718281828182'', 2718282), (''.0295299830714'', 29530), (''25.4'', 25400000)] s of
        Some v \<Rightarrow> v
      | None \<Rightarrow> 0)"

definition fx_text :: "int \<Rightarrow> nat \<Rightarrow> nat \<Rightarrow> string" where
  "fx_text n width prec =
     (let h = (\<bar>n\<bar> * 10 ^ prec + 500000) div 1000000;
          frac = dec (nat (h mod 10 ^ prec));
          s = (if n < 0 then ''-'' else []) @ dec (nat (h div 10 ^ prec)) @
              (if prec = 0 then [] else ''.'' @ replicate (prec - length frac) CHR ''0'' @ frac)
      in replicate (width - length s) CHR '' '' @ s)"

definition bench :: platform where
  "bench =
     \<lparr>f_add = (\<lambda>a b. encode32 (decode32 a + decode32 b)),
      f_mul = (\<lambda>a b. encode32 (fx_mul (decode32 a) (decode32 b))),
      f_div = (\<lambda>a b. encode32 (fx_div (decode32 a) (decode32 b))),
      d_add = (\<lambda>a b. word_of_int (sint a + sint b)),
      d_mul = (\<lambda>a b. word_of_int (fx_mul (sint a) (sint b))),
      d_div = (\<lambda>a b. word_of_int (fx_div (sint a) (sint b))),
      d_pow = (\<lambda>a b. word_of_int (fx_pow (sint a) (sint b))),
      f_of_int = (\<lambda>i. encode32 (sint i * 1000000)),
      d_of_int = (\<lambda>i. word_of_int (sint i * 1000000)),
      d_of_f = (\<lambda>x. word_of_int (decode32 x)),
      f_of_d = (\<lambda>a. encode32 (sint a)),
      d_lit = (\<lambda>s. word_of_int (fx_lit s)),
      round_f = (\<lambda>x. encode32 (fx_round (decode32 x))),
      round_d = (\<lambda>a. encode32 (fx_round (sint a))),
      dtostrf = (\<lambda>a width prec. fx_text (sint a) width prec),
      pct_space_H = ''H'',
      json_printTo = (\<lambda>n doc. take (n - 1) (render doc)),
      maxMQTTpackageSize = 512\<rparr>"


text \<open>
  The report \<open>bench\<close> composes for the observation of \<open>sample_station\<close> (20.5 degrees,
  50 percent, 1013.25 hPa at 120 m) in metric units.
\<close>

definition bench_report :: "string \<Rightarrow> string" where
  "bench_report intro =
     intro @ ''Conditions as of Wed. 12:27:15'' @ newline @
     ''   20.50 *C'' @ newline @
     ''   50.00 Humidity'' @ newline @
     '' 1026.18 hPc (  769.70 mm Hg)'' @ newline"

section \<open>Notions used in the statements\<close>

text \<open>The fault branch of \<open>make_observation\<close> leaves the station with these two lines added.\<close>

definition sensor_fault_result :: "station \<Rightarrow> station" where
  "sensor_fault_result st =
     st\<lparr>trace := trace st @
            [Serial (PStr ''Sensor errors!  Please check your board.''), Serial (PStr crlf)]\<rparr>"

text \<open>The desired-state document the firing transition publishes.\<close>

definition rescheduled_payload :: "platform \<Rightarrow> station \<Rightarrow> string" where
  "rescheduled_payload P st =
     json_printTo P (maxMQTTpackageSize P)
       (shadow_document ''desired'' (timestamp (next_alarm st) + 86400) (unit_type st)
          (location_altitude st) (time_zone_offset st) (twilio_device_number st)
          (master_number st))"

text \<open>
  The inputs on which the report composer is defined: the day indexes the table, and each
  of the four numbers fits its nine-byte buffer.
\<close>

definition report_inputs_valid :: "platform \<Rightarrow> station \<Rightarrow> bool" where
  "report_inputs_valid P st \<longleftrightarrow>
     (let obs = last_observation st;
          slvl_press = hpa_to_sea_level P st (humidity obs) (pressure obs) (location_altitude st)
      in uint (day obs) < 7 \<and>
         length (dtostrf P (d_of_f P (humidity obs)) 8 2) < 9 \<and>
         length (dtostrf P (d_of_f P slvl_press) 8 2) < 9 \<and>
         (if unit_type st = ''imperial'' then
            length (dtostrf P (d_of_f P (celsius_to_fahrenheit P (temperature obs))) 8 2) < 9 \<and>
            length (dtostrf P (d_of_f P (hpa_to_in_mercury P slvl_press)) 8 2) < 9
          else
            length (dtostrf P (d_of_f P (temperature obs)) 8 2) < 9 \<and>
            length (dtostrf P (d_of_f P (in_to_mm P (hpa_to_in_mercury P slvl_press))) 8 2) < 9))"

text \<open>
  The sampling interval in seconds, \<open>RECHECK_WEATHER_INTERVAL/1000\<close>, as an integer.
\<close>

definition sample_interval :: int where
  "sample_interval = 3 * 60 * 1000 div 1000"

text \<open>The alarm invariant of the data model: a disabled alarm counts as rung.\<close>

definition alarm_consistent :: "station \<Rightarrow> bool" where
  "alarm_consistent st \<longleftrightarrow> (timestamp (next_alarm st) = 0 \<longrightarrow> rang (next_alarm st))"

text \<open>
  The report the \<open>demo\<close> platform composes on a Wednesday in metric units, for an
  introduction and a time of day.
\<close>

definition demo_report :: "string \<Rightarrow> string \<Rightarrow> string" where
  "demo_report intro time_of_day =
     intro @ ''Conditions as of Wed. '' @ time_of_day @ newline @
     ''    0.00 *C'' @ newline @
     ''    0.00 Humidity'' @ newline @
     ''    0.00 hPc (    0.00 mm Hg)'' @ newline"

section \<open>Auxiliary facts\<close>

subsection \<open>Traces and words\<close>

lemma print_all_trace: "print_all xs st = st\<lparr>trace := trace st @ map Serial xs\<rparr>"
  unfolding print_all_def
  by (induction xs arbitrary: st) (simp_all add: print_to_serial_def)

lemma sint_add_no_overflow:
  fixes t w :: i32
  assumes "0 \<le> sint w" "sint t + sint w \<le> 2147483647"
  shows "sint (t + w) = sint t + sint w"
proof -
  have lo: "- 2147483648 \<le> sint t" using sint_ge [of t] by simp
  have "sint (t + w) = signed_take_bit 31 (sint t + sint w)"
    by (simp add: sint_word_ariths)
  also have "\<dots> = sint t + sint w"
    using assms lo by (intro signed_take_bit_int_eq_self) simp_all
  finally show ?thesis .
qed

lemma sint_alarm_window: "sint alarm_window = 2 * sample_interval"
  by (simp add: alarm_window_def sample_interval_def)

lemma and_mask31_zero:
  fixes x :: i32
  shows "x AND 0x7FFFFFFF = 0 \<longleftrightarrow> x = 0 \<or> x = 0x80000000"
proof -
  have m: "(0x7FFFFFFF :: i32) = mask 31"
    by (simp add: mask_eq_exp_minus_1)
  have b: "unat x < 4294967296"
    using unsigned_less [of x, where 'a = nat] by simp
  have "x AND 0x7FFFFFFF = 0 \<longleftrightarrow> unat (take_bit 31 x) = 0"
    unfolding m by (simp add: take_bit_eq_mask unat_eq_0)
  also have "\<dots> \<longleftrightarrow> unat x mod 2147483648 = 0"
    by (simp add: take_bit_eq_mod unat_mod)
  also have "\<dots> \<longleftrightarrow> unat x = 0 \<or> unat x = 2147483648"
    using b by auto
  also have "\<dots> \<longleftrightarrow> x = 0 \<or> x = 0x80000000"
  proof -
    have "unat x = 2147483648 \<longleftrightarrow> unat x = unat (0x80000000 :: i32)" by simp
    also have "\<dots> \<longleftrightarrow> x = 0x80000000" by (simp only: word_unat_eq_iff)
    finally show ?thesis by (simp add: unat_eq_0)
  qed
  finally show ?thesis .
qed

lemma sensors_ok_iff:
  "sensors_ok r \<longleftrightarrow>
     \<not> (event_pressure r = 0 \<or> event_pressure r = 0x80000000 \<or>
        isnan (dht_humidity r) \<or> isnan (dht_temperature r))"
  by (simp add: sensors_ok_def float_to_bool_def and_mask31_zero)

subsection \<open>The report composer\<close>

text \<open>The report reads the observation, the unit system and the altitude, nothing else.\<close>

lemma hpa_to_sea_level_altitude:
  "location_altitude st' = location_altitude st \<Longrightarrow>
   hpa_to_sea_level P st' c h a = hpa_to_sea_level P st c h a"
  by (simp add: hpa_to_sea_level_def)

lemma get_weather_report_reads:
  assumes "last_observation st' = last_observation st" "unit_type st' = unit_type st"
    "location_altitude st' = location_altitude st"
  shows "get_weather_report P intro st' = get_weather_report P intro st"
  unfolding get_weather_report_def assms hpa_to_sea_level_altitude [OF assms(3)] ..

lemma snprintf_length: "length (snprintf 160 formatted) < 160"
  by (simp add: snprintf_def)

lemma get_weather_report_length:
  "get_weather_report P intro st = Inr s \<Longrightarrow> length s < 160"
  by (auto simp add: get_weather_report_def Let_def snprintf_length
      split: sum.splits if_splits prod.splits)

lemma get_weather_report_defined:
  "report_inputs_valid P st \<Longrightarrow> \<exists>s. get_weather_report P intro st = Inr s"
  by (auto simp add: report_inputs_valid_def get_weather_report_def dtostrf_into_def
      int_to_day_def Let_def split: if_splits)

lemma get_weather_report_valid:
  "get_weather_report P intro st = Inr s \<Longrightarrow> report_inputs_valid P st"
  by (auto simp add: report_inputs_valid_def get_weather_report_def dtostrf_into_def
      int_to_day_def Let_def split: if_splits sum.splits)

lemma demo_report_metric:
  "get_weather_report demo intro (sample_station t rg e) = Inr (demo_report intro ''12:27:15'')"
  if "length intro \<le> 60"
  using that
  by (simp add: get_weather_report_def sample_station_def demo_def Let_def dtostrf_into_def
      int_to_day_def day_names_def snprintf_def report_format_def newline_def dec.simps
      demo_report_def hpa_to_sea_level_def)

subsection \<open>The firing transition and the sampler\<close>

text \<open>The firing transition, when the report can be composed.\<close>

lemma handle_alarm_result:
  assumes "get_weather_report P (''Daily Report!'' @ newline) st = Inr body"
  shows "handle_alarm P st =
     Inr (st\<lparr>next_alarm := (next_alarm st)\<lparr>rang := True\<rparr>,
             trace := trace st @
               [Serial (PStr (rescheduled_payload P st)),
                Publish (shadow_topic st) (rescheduled_payload P st),
                Twilio_message (twilio_topic st) (master_number st) (twilio_device_number st)
                  body []]\<rparr>)"
proof -
  let ?st2 = "(update_shadow_state P (shadow_topic st) (timestamp (next_alarm st) + 86400)
                  (unit_type st) (location_altitude st) (time_zone_offset st)
                  (twilio_device_number st) (master_number st) st)
               \<lparr>next_alarm := (next_alarm st)\<lparr>rang := True\<rparr>\<rparr>"
  have "get_weather_report P (''Daily Report!'' @ newline) ?st2 =
        get_weather_report P (''Daily Report!'' @ newline) st"
    by (rule get_weather_report_reads)
      (simp_all add: update_shadow_state_def publish_to_topic_def print_to_serial_def Let_def)
  then show ?thesis
    using assms
    by (simp add: handle_alarm_def Let_def update_shadow_state_def publish_to_topic_def
        print_to_serial_def send_twilio_message_def rescheduled_payload_def)
qed

lemma handle_alarm_cases:
  "handle_alarm P st = Inr st' \<Longrightarrow>
   \<exists>body. get_weather_report P (''Daily Report!'' @ newline) st = Inr body"
proof -
  assume h: "handle_alarm P st = Inr st'"
  let ?st2 = "(update_shadow_state P (shadow_topic st) (timestamp (next_alarm st) + 86400)
                  (unit_type st) (location_altitude st) (time_zone_offset st)
                  (twilio_device_number st) (master_number st) st)
               \<lparr>next_alarm := (next_alarm st)\<lparr>rang := True\<rparr>\<rparr>"
  have e: "get_weather_report P (''Daily Report!'' @ newline) ?st2 =
        get_weather_report P (''Daily Report!'' @ newline) st"
    by (rule get_weather_report_reads)
      (simp_all add: update_shadow_state_def publish_to_topic_def print_to_serial_def Let_def)
  show ?thesis
  proof (cases "get_weather_report P (''Daily Report!'' @ newline) st")
    case (Inl e')
    with h e show ?thesis
      by (simp add: handle_alarm_def Let_def update_shadow_state_def publish_to_topic_def
        print_to_serial_def)
  next
    case (Inr b)
    then show ?thesis by blast
  qed
qed

lemma update_alarm_timestamp: "timestamp (next_alarm (update_alarm t st)) = t"
  by (simp add: update_alarm_def print_all_trace Let_def)

lemma make_observation_rung:
  assumes "rang (next_alarm st)"
  shows "make_observation P r st =
     Inr (if sensors_ok r then st\<lparr>last_observation := observe P r\<rparr>
          else sensor_fault_result st)"
  using assms
  by (simp add: make_observation_def sensor_fault_result_def print_to_serial_def Let_def)

lemma run_samples_rung:
  "rang (next_alarm st) \<Longrightarrow>
   \<exists>st'. run_samples P rs st = Inr st' \<and> next_alarm st' = next_alarm st \<and>
         outbound (trace st') = outbound (trace st)"
proof (induction rs arbitrary: st)
  case Nil
  then show ?case by simp
next
  case (Cons r rs)
  let ?st1 = "if sensors_ok r then st\<lparr>last_observation := observe P r\<rparr>
              else sensor_fault_result st"
  have step: "make_observation P r st = Inr ?st1"
    using Cons.prems by (rule make_observation_rung)
  have same: "next_alarm ?st1 = next_alarm st" "outbound (trace ?st1) = outbound (trace st)"
    by (simp_all add: sensor_fault_result_def outbound_def)
  then have "rang (next_alarm ?st1)" using Cons.prems by simp
  from Cons.IH [OF this] obtain st' where
    "run_samples P rs ?st1 = Inr st'" "next_alarm st' = next_alarm ?st1"
    "outbound (trace st') = outbound (trace ?st1)"
    by blast
  with step same show ?case by simp
qed

lemma make_observation_window:
  assumes ok: "sensors_ok r" and unrung: "\<not> rang (next_alarm st)"
    and after: "sint (timestamp (next_alarm st)) < sint (ntp_epoch r)"
    and within: "sint (ntp_epoch r) < sint (timestamp (next_alarm st) + alarm_window)"
  shows "make_observation P r st =
     handle_alarm P
       (print_to_serial (PStr (''We just hit an alarm!'' @ crlf))
          (st\<lparr>last_observation := observe P r\<rparr>))"
  using assms by (simp add: make_observation_def Let_def observe_def)

lemma make_observation_ok_trace:
  assumes "sensors_ok r" "make_observation P r st = Inr st'"
  shows "trace st' = trace st \<or> length (trace st') = length (trace st) + 4"
proof (cases "\<not> rang (next_alarm st) \<and>
    sint (timestamp (next_alarm st)) < sint (ntp_epoch r) \<and>
    sint (ntp_epoch r) < sint (timestamp (next_alarm st) + alarm_window)")
  case True
  let ?st1 = "print_to_serial (PStr (''We just hit an alarm!'' @ crlf))
                (st\<lparr>last_observation := observe P r\<rparr>)"
  from True assms have h: "handle_alarm P ?st1 = Inr st'"
    by (simp add: make_observation_window)
  then obtain body where
    "get_weather_report P (''Daily Report!'' @ newline) ?st1 = Inr body"
    using handle_alarm_cases by blast
  from handle_alarm_result [OF this] h show ?thesis
    by (auto simp add: print_to_serial_def)
next
  case False
  with assms have "st' = st\<lparr>last_observation := observe P r\<rparr>"
    by (auto simp add: make_observation_def Let_def observe_def split: if_splits)
  then show ?thesis by simp
qed

subsection \<open>The alarm invariant\<close>

lemma update_alarm_consistent:
  "alarm_consistent st \<Longrightarrow> alarm_consistent (update_alarm t st)"
  by (auto simp add: alarm_consistent_def update_alarm_def print_all_trace Let_def)

lemma make_observation_consistent:
  assumes "alarm_consistent st" "make_observation P r st = Inr st'"
  shows "alarm_consistent st'"
proof (cases "sensors_ok r \<and> \<not> rang (next_alarm st) \<and>
    sint (timestamp (next_alarm st)) < sint (ntp_epoch r) \<and>
    sint (ntp_epoch r) < sint (timestamp (next_alarm st) + alarm_window)")
  case True
  let ?st1 = "print_to_serial (PStr (''We just hit an alarm!'' @ crlf))
                (st\<lparr>last_observation := observe P r\<rparr>)"
  from True assms have h: "handle_alarm P ?st1 = Inr st'"
    by (simp add: make_observation_window)
  then obtain body where
    "get_weather_report P (''Daily Report!'' @ newline) ?st1 = Inr body"
    using handle_alarm_cases by blast
  from handle_alarm_result [OF this] h show ?thesis
    by (auto simp add: alarm_consistent_def)
next
  case False
  with assms(2) have "next_alarm st' = next_alarm st"
    by (auto simp add: make_observation_def Let_def observe_def print_to_serial_def
        split: if_splits)
  with assms(1) show ?thesis by (simp add: alarm_consistent_def)
qed

lemma yield_consistent:
  assumes "alarm_consistent st" "yield P t st = Inr st'"
  shows "alarm_consistent st'"
proof (cases "last_weather_check st + recheck_weather_interval < ucast (millis_check t)")
  case True
  let ?st2 = "(print_all
                 [PStr ''BEFORE Remaining Heap Size: '', PU32 (free_heap_before t), PStr crlf]
                 (time_client Ntp_update st))
              \<lparr>last_weather_check := ucast (millis_stamp t)\<rparr>"
  have c2: "alarm_consistent ?st2"
    using assms(1) by (simp add: alarm_consistent_def print_all_trace time_client_def)
  from True assms(2) obtain st3 where
    m: "make_observation P (sensors t) ?st2 = Inr st3" and
    e: "st' = print_all
              [PStr ''AFTER Remaining Heap Size: '', PU32 (free_heap_after t), PStr crlf]
              (print_observation P (formatted_time t) (last_observation st3) st3)"
    by (auto simp add: yield_def Let_def time_client_def split: sum.splits)
  from make_observation_consistent [OF c2 m] show ?thesis
    unfolding e by (simp add: alarm_consistent_def print_all_trace print_observation_def)
next
  case False
  with assms(2) have "st' = time_client Ntp_update st"
    by (simp add: yield_def Let_def time_client_def)
  with assms(1) show ?thesis by (simp add: alarm_consistent_def time_client_def)
qed

lemma constructor_consistent:
  assumes "constructor P b = Inr st"
  shows "alarm_consistent st"
proof -
  define st5 where "st5 =
    (time_client Ntp_update (time_client Ntp_begin
       (display_bmp_sensor_details (bmp_sensor b)
          (if \<not> bmp_begin b
           then print_to_serial (PStr wiring_message)
             \<lparr>last_observation =
               \<lparr>temperature = 0, humidity = 0, pressure = 0, day = 0, hour = 0, minute = 0,
                second = 0, epoch = 0\<rparr>,
             last_weather_check = 0,
             next_alarm = \<lparr>timestamp = 0, rang = True\<rparr>,
             location_altitude = altitude_in b,
             time_zone_offset = time_zone_offset_in b,
             master_number = master_device_number_in b,
             twilio_device_number = twilio_device_number_in b,
             unit_type = unit_type_in b,
             shadow_topic = shadow_topic_in b,
             twilio_topic = twilio_topic_in b,
             trace = []\<rparr>
           else
             \<lparr>last_observation =
               \<lparr>temperature = 0, humidity = 0, pressure = 0, day = 0, hour = 0, minute = 0,
                second = 0, epoch = 0\<rparr>,
             last_weather_check = 0,
             next_alarm = \<lparr>timestamp = 0, rang = True\<rparr>,
             location_altitude = altitude_in b,
             time_zone_offset = time_zone_offset_in b,
             master_number = master_device_number_in b,
             twilio_device_number = twilio_device_number_in b,
             unit_type = unit_type_in b,
             shadow_topic = shadow_topic_in b,
             twilio_topic = twilio_topic_in b,
             trace = []\<rparr>))))
      \<lparr>last_weather_check := ucast (boot_millis b),
        next_alarm := \<lparr>timestamp = 0, rang = True\<rparr>\<rparr>"
  have c5: "alarm_consistent st5"
    by (simp add: st5_def alarm_consistent_def)
  from assms obtain st7 where
    m: "make_observation P (boot_sensors b) (update_alarm (next_alarm_in b) st5) = Inr st7" and
    e: "st = print_observation P (boot_formatted_time b) (last_observation st7) st7"
    by (auto simp add: constructor_def Let_def st5_def split: sum.splits)
  from make_observation_consistent [OF update_alarm_consistent [OF c5] m] show ?thesis
    unfolding e by (simp add: alarm_consistent_def print_all_trace print_observation_def)
qed

lemma reachable_consistent: "reachable P st \<Longrightarrow> alarm_consistent st"
proof (induction rule: reachable.induct)
  case (r_constructor b st)
  then show ?case by (rule constructor_consistent)
next
  case (r_yield st t st')
  then show ?case using yield_consistent by blast
next
  case (r_make_observation st r st')
  then show ?case using make_observation_consistent by blast
next
  case (r_print_observation st ft obs)
  then show ?case by (simp add: alarm_consistent_def print_all_trace print_observation_def)
next
  case (r_update_alarm st alarm_in)
  then show ?case by (simp add: update_alarm_consistent)
next
  case (r_update_units st units_in)
  then show ?case
    by (simp add: alarm_consistent_def update_units_def print_all_trace print_to_serial_def
        Let_def)
next
  case (r_update_alt st alt_in)
  then show ?case by (simp add: alarm_consistent_def update_alt_def print_all_trace Let_def)
next
  case (r_update_tz st tz_in)
  then show ?case
    by (simp add: alarm_consistent_def update_tz_def print_all_trace time_client_def Let_def)
next
  case (r_update_tnum st tnum_in)
  then show ?case by (simp add: alarm_consistent_def update_tnum_def print_all_trace Let_def)
next
  case (r_update_mnum st mnum_in)
  then show ?case by (simp add: alarm_consistent_def update_mnum_def print_all_trace Let_def)
next
  case (r_report_shadow_state st topic)
  then show ?case
    by (simp add: alarm_consistent_def report_shadow_state_def publish_to_topic_def
        print_to_serial_def Let_def)
next
  case (r_update_shadow_state st topic new_alarm new_units new_alt new_tz new_tnum new_mnum)
  then show ?case
    by (simp add: alarm_consistent_def update_shadow_state_def publish_to_topic_def
        print_to_serial_def Let_def)
qed

subsection \<open>Evaluating the fixed-point platform\<close>

text \<open>
  The recursive functions are unfolded on numerals only, and a \<open>let\<close> is opened only
  once its bound value has been computed.
\<close>

lemma bench_fields:
  "f_add bench a b = encode32 (decode32 a + decode32 b)"
  "f_mul bench a b = encode32 (fx_mul (decode32 a) (decode32 b))"
  "f_div bench a b = encode32 (fx_div (decode32 a) (decode32 b))"
  "d_add bench c d = word_of_int (sint c + sint d)"
  "d_mul bench c d = word_of_int (fx_mul (sint c) (sint d))"
  "d_div bench c d = word_of_int (fx_div (sint c) (sint d))"
  "d_pow bench c d = word_of_int (fx_pow (sint c) (sint d))"
  "f_of_int bench i = encode32 (sint i * 1000000)"
  "d_of_int bench i = word_of_int (sint i * 1000000)"
  "d_of_f bench a = word_of_int (decode32 a)"
  "f_of_d bench c = encode32 (sint c)"
  "d_lit bench s = word_of_int (fx_lit s)"
  "round_f bench a = encode32 (fx_round (decode32 a))"
  "round_d bench c = encode32 (fx_round (sint c))"
  "dtostrf bench c width prec = fx_text (sint c) width prec"
  "pct_space_H bench = ''H''"
  "json_printTo bench n doc = take (n - 1) (render doc)"
  "maxMQTTpackageSize bench = 512"
  by (simp_all add: bench_def)

lemma bit_length_eval:
  "bit_length 0 = 0"
  "bit_length 1 = Suc 0"
  "bit_length (numeral k) = Suc (bit_length (numeral k div 2))"
  by (simp_all add: bit_length.simps)

lemma dec_eval:
  "dec 0 = ''0''"
  "dec (Suc 0) = ''1''"
  "dec (numeral k) =
     (if numeral k < (10 :: nat) then [''0123456789'' ! numeral k]
      else dec (numeral k div 10) @ [''0123456789'' ! (numeral k mod 10)])"
  by (simp_all add: dec.simps [of 0] dec.simps [of "Suc 0"] dec.simps [of "numeral k"])

lemma replicate_numeral_eval: "replicate (numeral k) x = x # replicate (pred_numeral k) x"
  by (simp add: numeral_eq_Suc)

lemmas bench_eval = replicate_numeral_eval bench_fields decode32_def encode32_def
  bit_length_eval fx_mul_def fx_div_def fx_round_def fx_pow_def fx_lit_def fx_text_def Let_def
  dec_eval ATM_JOULES_PER_KILOGRAM_KELVIN_def GRAVITATIONAL_ACCELERATION_def E_CONSTANT_def
  HPA_TO_IN_MERCURY_def hpa_to_sea_level_def hpa_to_in_mercury_def in_to_mm_def
  celsius_to_fahrenheit_def

lemma bench_report_metric:
  "get_weather_report bench intro (sample_station t rg e) = Inr (bench_report intro)"
  if "length intro \<le> 60"
  using that
  by (simp add: bench_eval get_weather_report_def sample_station_def dtostrf_into_def
      int_to_day_def day_names_def snprintf_def report_format_def newline_def bench_report_def
      cong: let_weak_cong)


section \<open>The claims\<close>

text \<open>
  C1. As stated, with the window closed at its upper end (\<open>T < E \<le> T + 2 * sample_interval\<close>),
  the claim fails: the source compares with \<open>>\<close>, so a sample at exactly
  \<open>T + 2 * sample_interval\<close> does not fire. With the alarm at 1000 and unrung, a successful
  sample at epoch 1360 stores the observation and leaves the alarm unrung and the trace
  empty.
\<close>

theorem sample_at_window_end_silent:
  "sensors_ok (good_readings 1360) \<and>
   \<not> rang (next_alarm (sample_station 1000 False 900)) \<and>
   sint (timestamp (next_alarm (sample_station 1000 False 900))) <
     sint (ntp_epoch (good_readings 1360)) \<and>
   sint (ntp_epoch (good_readings 1360)) \<le>
     sint (timestamp (next_alarm (sample_station 1000 False 900))) + 2 * sample_interval \<and>
   make_observation demo (good_readings 1360) (sample_station 1000 False 900) =
     Inr ((sample_station 1000 False 900)
            \<lparr>last_observation := observe demo (good_readings 1360)\<rparr>) \<and>
   \<not> rang (next_alarm ((sample_station 1000 False 900)
            \<lparr>last_observation := observe demo (good_readings 1360)\<rparr>)) \<and>
   outbound (trace ((sample_station 1000 False 900)
            \<lparr>last_observation := observe demo (good_readings 1360)\<rparr>)) = []"
  by (simp add: sensors_ok_def float_to_bool_def isnan_def good_readings_def
      sample_station_def sample_interval_def make_observation_def observe_def
      alarm_window_def outbound_def Let_def)

text \<open>
  C1, amended. For every alarm timestamp \<open>T\<close> with \<open>rang = false\<close> and every successful
  sample whose epoch \<open>E\<close> satisfies \<open>T < E < T + 2 * sample_interval\<close> (the sum within the
  range of \<open>int32_t\<close>), for which the report can be composed, the sample returns with
  \<open>rang = true\<close> and the timestamp unchanged, having published one desired-state document
  and sent one message; whatever samples follow return, leave the alarm as it is and send
  and publish nothing more.
\<close>

theorem sample_in_window_fires:
  assumes ok: "sensors_ok r" and unrung: "\<not> rang (next_alarm st)"
    and after: "sint (timestamp (next_alarm st)) < sint (ntp_epoch r)"
    and within: "sint (ntp_epoch r) < sint (timestamp (next_alarm st)) + 2 * sample_interval"
    and fits: "sint (timestamp (next_alarm st)) + 2 * sample_interval \<le> 2147483647"
    and body: "get_weather_report P (''Daily Report!'' @ newline)
                 (st\<lparr>last_observation := observe P r\<rparr>) = Inr body"
  shows "\<exists>st'. make_observation P r st = Inr st' \<and>
           rang (next_alarm st') \<and>
           timestamp (next_alarm st') = timestamp (next_alarm st) \<and>
           last_observation st' = observe P r \<and>
           outbound (trace st') =
             outbound (trace st) @
               [Publish (shadow_topic st) (rescheduled_payload P st),
                Twilio_message (twilio_topic st) (master_number st) (twilio_device_number st)
                  body []] \<and>
           (\<forall>rs. \<exists>st''. run_samples P rs st' = Inr st'' \<and>
                   next_alarm st'' = next_alarm st' \<and>
                   outbound (trace st'') = outbound (trace st'))"
proof -
  let ?st1 = "print_to_serial (PStr (''We just hit an alarm!'' @ crlf))
                (st\<lparr>last_observation := observe P r\<rparr>)"
  let ?st' = "?st1\<lparr>next_alarm := (next_alarm ?st1)\<lparr>rang := True\<rparr>,
             trace := trace ?st1 @
               [Serial (PStr (rescheduled_payload P ?st1)),
                Publish (shadow_topic ?st1) (rescheduled_payload P ?st1),
                Twilio_message (twilio_topic ?st1) (master_number ?st1)
                  (twilio_device_number ?st1) body []]\<rparr>"
  have w: "sint (timestamp (next_alarm st) + alarm_window) =
           sint (timestamp (next_alarm st)) + 2 * sample_interval"
    using fits sint_add_no_overflow [of alarm_window "timestamp (next_alarm st)"]
    by (simp add: sint_alarm_window sample_interval_def)
  have "get_weather_report P (''Daily Report!'' @ newline) ?st1 = Inr body"
    using body
    get_weather_report_reads [of ?st1 "st\<lparr>last_observation := observe P r\<rparr>" P]
    by (simp add: print_to_serial_def)
  then have "handle_alarm P ?st1 = Inr ?st'" by (rule handle_alarm_result)
  moreover have "make_observation P r st = handle_alarm P ?st1"
    using ok unrung after within w by (simp add: make_observation_window)
  ultimately have run: "make_observation P r st = Inr ?st'" by simp
  have p: "rescheduled_payload P ?st1 = rescheduled_payload P st"
    by (simp add: rescheduled_payload_def print_to_serial_def)
  have fields: "rang (next_alarm ?st')"
    "timestamp (next_alarm ?st') = timestamp (next_alarm st)"
    "last_observation ?st' = observe P r"
    by (simp_all add: print_to_serial_def)
  have out: "outbound (trace ?st') =
             outbound (trace st) @
               [Publish (shadow_topic st) (rescheduled_payload P st),
                Twilio_message (twilio_topic st) (master_number st) (twilio_device_number st)
                  body []]"
    unfolding p by (simp add: print_to_serial_def outbound_def)
  have later: "\<forall>rs. \<exists>st''. run_samples P rs ?st' = Inr st'' \<and>
                   next_alarm st'' = next_alarm ?st' \<and>
                   outbound (trace st'') = outbound (trace ?st')"
    using run_samples_rung [OF fields(1)] by blast
  from run fields out later show ?thesis by blast
qed

theorem sample_in_window_fires_witness:
  "sensors_ok (good_readings 1200) \<and>
   \<not> rang (next_alarm (sample_station 1000 False 900)) \<and>
   sint (timestamp (next_alarm (sample_station 1000 False 900))) <
     sint (ntp_epoch (good_readings 1200)) \<and>
   sint (ntp_epoch (good_readings 1200)) <
     sint (timestamp (next_alarm (sample_station 1000 False 900))) + 2 * sample_interval \<and>
   sint (timestamp (next_alarm (sample_station 1000 False 900))) + 2 * sample_interval
     \<le> 2147483647 \<and>
   get_weather_report demo (''Daily Report!'' @ newline)
     ((sample_station 1000 False 900)\<lparr>last_observation := observe demo (good_readings 1200)\<rparr>) =
     Inr (demo_report (''Daily Report!'' @ newline) ''12:30:15'') \<and>
   (\<exists>st'. make_observation demo (good_readings 1200) (sample_station 1000 False 900) = Inr st' \<and>
       rang (next_alarm st') \<and> timestamp (next_alarm st') = 1000 \<and>
       outbound (trace st') =
         [Publish ''shadow/update'' (rescheduled_payload demo (sample_station 1000 False 900)),
          Twilio_message ''twilio'' ''+15550100'' ''+15550199''
            (demo_report (''Daily Report!'' @ newline) ''12:30:15'') []] \<and>
       (\<exists>st''. run_samples demo [good_readings 1300, good_readings 1400] st' = Inr st'' \<and>
           next_alarm st'' = next_alarm st' \<and> outbound (trace st'') = outbound (trace st')))"
proof -
  let ?r = "good_readings 1200"
  let ?st = "sample_station 1000 False 900"
  have h1: "sensors_ok ?r"
    by (simp add: sensors_ok_def float_to_bool_def isnan_def good_readings_def)
  have h2: "\<not> rang (next_alarm ?st)"
    by (simp add: sample_station_def)
  have h3: "sint (timestamp (next_alarm ?st)) < sint (ntp_epoch ?r)"
    by (simp add: sample_station_def good_readings_def)
  have h4: "sint (ntp_epoch ?r) < sint (timestamp (next_alarm ?st)) + 2 * sample_interval"
    by (simp add: sample_station_def good_readings_def sample_interval_def)
  have h5: "sint (timestamp (next_alarm ?st)) + 2 * sample_interval \<le> 2147483647"
    by (simp add: sample_station_def sample_interval_def)
  have h6: "get_weather_report demo (''Daily Report!'' @ newline)
              (?st\<lparr>last_observation := observe demo ?r\<rparr>) =
            Inr (demo_report (''Daily Report!'' @ newline) ''12:30:15'')"
    by (simp add: get_weather_report_def sample_station_def good_readings_def observe_def
        demo_def Let_def dtostrf_into_def int_to_day_def day_names_def snprintf_def
        report_format_def newline_def dec.simps demo_report_def hpa_to_sea_level_def)
  from sample_in_window_fires [OF h1 h2 h3 h4 h5 h6] obtain st' where
    run: "make_observation demo ?r ?st = Inr st'" and
    alarm: "rang (next_alarm st')" "timestamp (next_alarm st') = timestamp (next_alarm ?st)" and
    out: "outbound (trace st') =
            outbound (trace ?st) @
              [Publish (shadow_topic ?st) (rescheduled_payload demo ?st),
               Twilio_message (twilio_topic ?st) (master_number ?st) (twilio_device_number ?st)
                 (demo_report (''Daily Report!'' @ newline) ''12:30:15'') []]" and
    later: "\<forall>rs. \<exists>st''. run_samples demo rs st' = Inr st'' \<and>
              next_alarm st'' = next_alarm st' \<and> outbound (trace st'') = outbound (trace st')"
    by blast
  from alarm(2) have t: "timestamp (next_alarm st') = 1000"
    by (simp add: sample_station_def)
  from out have o: "outbound (trace st') =
         [Publish ''shadow/update'' (rescheduled_payload demo ?st),
          Twilio_message ''twilio'' ''+15550100'' ''+15550199''
            (demo_report (''Daily Report!'' @ newline) ''12:30:15'') []]"
    by (simp add: sample_station_def outbound_def)
  from later have l: "\<exists>st''. run_samples demo [good_readings 1300, good_readings 1400] st' =
      Inr st'' \<and> next_alarm st'' = next_alarm st' \<and> outbound (trace st'') = outbound (trace st')"
    by blast
  from h1 h2 h3 h4 h5 h6 run alarm(1) t o l show ?thesis by blast
qed

text \<open>
  C2. As stated, with \<open>T \<le> last_observation.epoch\<close>, the claim fails at \<open>T\<close> equal to the
  epoch: the source tests \<open>last_observation.epoch > alarm_in\<close>, so an alarm set to the epoch
  of the last observation is armed. With the last observation at 1000 and the alarm
  disabled, \<open>update_alarm(1000)\<close> leaves \<open>rang = false\<close>.
\<close>

theorem update_alarm_at_epoch_armed:
  "(1000 :: i32) \<noteq> 0 \<and>
   1000 \<noteq> timestamp (next_alarm (sample_station 0 True 1000)) \<and>
   sint (1000 :: i32) \<le> sint (epoch (last_observation (sample_station 0 True 1000))) \<and>
   timestamp (next_alarm (update_alarm 1000 (sample_station 0 True 1000))) = 1000 \<and>
   \<not> rang (next_alarm (update_alarm 1000 (sample_station 0 True 1000)))"
  by (simp add: update_alarm_def sample_station_def print_all_trace Let_def)

text \<open>
  C2, amended. For every \<open>T \<noteq> 0\<close> different from the current alarm timestamp, if \<open>T\<close> is
  strictly before the latest observation epoch when \<open>update_alarm(T)\<close> is called, the
  result has \<open>rang = true\<close> and \<open>timestamp = T\<close>, and nothing is published or sent.
\<close>

theorem update_alarm_before_epoch_rung:
  assumes "t \<noteq> 0" "t \<noteq> timestamp (next_alarm st)"
    "sint t < sint (epoch (last_observation st))"
  shows "rang (next_alarm (update_alarm t st)) \<and>
         timestamp (next_alarm (update_alarm t st)) = t \<and>
         outbound (trace (update_alarm t st)) = outbound (trace st)"
  using assms by (auto simp add: update_alarm_def print_all_trace Let_def outbound_def)

theorem update_alarm_before_epoch_rung_witness:
  "(999 :: i32) \<noteq> 0 \<and>
   999 \<noteq> timestamp (next_alarm (sample_station 5000 False 1000)) \<and>
   sint (999 :: i32) < sint (epoch (last_observation (sample_station 5000 False 1000))) \<and>
   rang (next_alarm (update_alarm 999 (sample_station 5000 False 1000))) \<and>
   timestamp (next_alarm (update_alarm 999 (sample_station 5000 False 1000))) = 999 \<and>
   outbound (trace (update_alarm 999 (sample_station 5000 False 1000))) =
     outbound (trace (sample_station 5000 False 1000))"
proof -
  have h1: "(999 :: i32) \<noteq> 0" by simp
  have h2: "999 \<noteq> timestamp (next_alarm (sample_station 5000 False 1000))"
    by (simp add: sample_station_def)
  have h3: "sint (999 :: i32) < sint (epoch (last_observation (sample_station 5000 False 1000)))"
    by (simp add: sample_station_def)
  from update_alarm_before_epoch_rung [OF h1 h2 h3] h1 h2 h3 show ?thesis by blast
qed

text \<open>
  C3. As stated the claim fails: the source tests the pressure reading for being non-zero
  and the two other readings with \<open>isnan\<close>, so a NaN pressure is accepted. With the pressure
  reading 0x7FC00000 and the other readings good, the sample stores the NaN as the pressure
  of the observation and does not take the failure branch.
\<close>

theorem nan_pressure_accepted:
  "isnan (event_pressure (nan_pressure_readings 1200)) \<and>
   non_finite (event_pressure (nan_pressure_readings 1200)) \<and>
   make_observation demo (nan_pressure_readings 1200) (sample_station 0 True 900) =
     Inr ((sample_station 0 True 900)
            \<lparr>last_observation := observe demo (nan_pressure_readings 1200)\<rparr>) \<and>
   pressure (observe demo (nan_pressure_readings 1200)) = 0x7FC00000 \<and>
   make_observation demo (nan_pressure_readings 1200) (sample_station 0 True 900) \<noteq>
     Inr (sensor_fault_result (sample_station 0 True 900))"
  by (simp add: isnan_def non_finite_def nan_pressure_readings_def good_readings_def
      make_observation_def sensors_ok_def float_to_bool_def observe_def sample_station_def
      sensor_fault_result_def Let_def)

text \<open>
  C3, amended. For every tick, the sample operation takes its failure branch (two lines on
  the serial port, no observation update, no alarm check) if and only if the pressure
  reading is zero (+0.0 or -0.0), or the humidity reading is a NaN, or the temperature
  reading of the humidity sensor is a NaN.
\<close>

theorem sensor_fault_iff:
  "make_observation P r st = Inr (sensor_fault_result st) \<longleftrightarrow>
     event_pressure r = 0 \<or> event_pressure r = 0x80000000 \<or>
     isnan (dht_humidity r) \<or> isnan (dht_temperature r)"
proof (cases "sensors_ok r")
  case True
  have "make_observation P r st \<noteq> Inr (sensor_fault_result st)"
  proof
    assume "make_observation P r st = Inr (sensor_fault_result st)"
    from make_observation_ok_trace [OF True this] show False
      by (simp add: sensor_fault_result_def)
  qed
  with True show ?thesis by (simp add: sensors_ok_iff)
next
  case False
  then have "make_observation P r st = Inr (sensor_fault_result st)"
    by (simp add: make_observation_def sensor_fault_result_def print_to_serial_def)
  with False show ?thesis by (simp add: sensors_ok_iff)
qed

theorem sensor_fault_iff_witness:
  "isnan (dht_humidity (nan_humidity_readings 1200)) \<and>
   make_observation demo (nan_humidity_readings 1200) (sample_station 1000 False 900) =
     Inr (sensor_fault_result (sample_station 1000 False 900))"
proof -
  have h: "isnan (dht_humidity (nan_humidity_readings 1200))"
    by (simp add: isnan_def nan_humidity_readings_def good_readings_def)
  with sensor_fault_iff [of demo "nan_humidity_readings 1200" "sample_station 1000 False 900"]
  show ?thesis by simp
qed

text \<open>
  C4. If a sample tick takes the sensor-fault branch, every field of the stored observation
  and the alarm are what they were before the call: the call returns the station it was
  given with two lines added to the serial output, and nothing is published or sent.
\<close>

theorem sensor_fault_keeps_state:
  assumes "\<not> sensors_ok r"
  shows "make_observation P r st = Inr (sensor_fault_result st) \<and>
         last_observation (sensor_fault_result st) = last_observation st \<and>
         next_alarm (sensor_fault_result st) = next_alarm st \<and>
         outbound (trace (sensor_fault_result st)) = outbound (trace st)"
  using assms
  by (simp add: make_observation_def sensor_fault_result_def print_to_serial_def outbound_def)

theorem sensor_fault_keeps_state_witness:
  "\<not> sensors_ok (nan_humidity_readings 1200) \<and>
   make_observation demo (nan_humidity_readings 1200) (sample_station 1000 False 900) =
     Inr (sensor_fault_result (sample_station 1000 False 900)) \<and>
   last_observation (sensor_fault_result (sample_station 1000 False 900)) =
     last_observation (sample_station 1000 False 900) \<and>
   next_alarm (sensor_fault_result (sample_station 1000 False 900)) =
     next_alarm (sample_station 1000 False 900)"
proof -
  have h: "\<not> sensors_ok (nan_humidity_readings 1200)"
    by (simp add: sensors_ok_def isnan_def nan_humidity_readings_def good_readings_def)
  from sensor_fault_keeps_state [OF h, of demo "sample_station 1000 False 900"] h
  show ?thesis by blast
qed

text \<open>
  C5. In every reachable state of the engine, \<open>update_alarm(0)\<close> results in
  \<open>timestamp = 0\<close> and \<open>rang = true\<close>, whatever the alarm was before; when the timestamp is
  already 0 the call changes nothing.
\<close>

theorem update_alarm_zero_disables:
  assumes "reachable P st"
  shows "timestamp (next_alarm (update_alarm 0 st)) = 0 \<and>
         rang (next_alarm (update_alarm 0 st)) \<and>
         (timestamp (next_alarm st) = 0 \<longrightarrow> update_alarm 0 st = st)"
  using reachable_consistent [OF assms]
  by (auto simp add: alarm_consistent_def update_alarm_def print_all_trace Let_def)

theorem update_alarm_zero_disables_witness:
  "reachable demo (projr (constructor demo sample_boot)) \<and>
   \<not> rang (next_alarm (projr (constructor demo sample_boot))) \<and>
   timestamp (next_alarm (update_alarm 0 (projr (constructor demo sample_boot)))) = 0 \<and>
   rang (next_alarm (update_alarm 0 (projr (constructor demo sample_boot))))"
proof -
  have c: "\<exists>st. constructor demo sample_boot = Inr st \<and> \<not> rang (next_alarm st)"
    by (simp add: constructor_def sample_boot_def Let_def update_alarm_def print_all_trace
        time_client_def display_bmp_sensor_details_def make_observation_def sensors_ok_def
        float_to_bool_def isnan_def good_readings_def observe_def alarm_window_def
        print_observation_def)
  then obtain st where st: "constructor demo sample_boot = Inr st" "\<not> rang (next_alarm st)"
    by blast
  then have p: "projr (constructor demo sample_boot) = st" by simp
  have r: "reachable demo st" using st(1) by (rule r_constructor)
  from update_alarm_zero_disables [OF r] r st(2) show ?thesis unfolding p by blast
qed

text \<open>
  C6. Calling \<open>update_alarm\<close> twice in succession with the same timestamp gives the state
  the first call gave, trace included: the second call changes nothing, prints nothing,
  publishes nothing and sends nothing. \<open>update_alarm\<close> returns the station unchanged
  whenever its argument equals the current alarm timestamp.
\<close>

theorem update_alarm_idempotent:
  "update_alarm t (update_alarm t st) = update_alarm t st \<and>
   (timestamp (next_alarm st) = t \<longrightarrow> update_alarm t st = st)"
proof
  have "timestamp (next_alarm (update_alarm t st)) = t" by (rule update_alarm_timestamp)
  then show "update_alarm t (update_alarm t st) = update_alarm t st"
    by (subst update_alarm_def) simp
  show "timestamp (next_alarm st) = t \<longrightarrow> update_alarm t st = st"
    by (simp add: update_alarm_def)
qed

theorem update_alarm_idempotent_witness:
  "update_alarm 5000 (update_alarm 5000 (sample_station 0 True 1000)) =
     update_alarm 5000 (sample_station 0 True 1000) \<and>
   timestamp (next_alarm (sample_station 5000 False 1000)) = 5000 \<and>
   update_alarm 5000 (sample_station 5000 False 1000) = sample_station 5000 False 1000"
proof -
  have h: "timestamp (next_alarm (sample_station 5000 False 1000)) = 5000"
    by (simp add: sample_station_def)
  from update_alarm_idempotent [of 5000 "sample_station 0 True 1000"]
    update_alarm_idempotent [of 5000 "sample_station 5000 False 1000"] h
  show ?thesis by blast
qed




text \<open>
  C8. For every observation on which the composer is defined, every unit system and every
  introduction, the composer returns a report, and every report it returns has at most 160
  characters, the introduction included.
\<close>

theorem report_length_bound:
  "(report_inputs_valid P st \<longrightarrow> (\<exists>s. get_weather_report P intro st = Inr s)) \<and>
   (\<forall>s. get_weather_report P intro st = Inr s \<longrightarrow> length s \<le> 160)"
  using get_weather_report_defined [of P st intro] get_weather_report_length [of P intro st]
  by (auto simp add: less_imp_le)

theorem report_length_bound_witness:
  "report_inputs_valid demo (sample_station 0 True 1000) \<and>
   get_weather_report demo ''Now: '' (sample_station 0 True 1000) =
     Inr (demo_report ''Now: '' ''12:27:15'') \<and>
   length (demo_report ''Now: '' ''12:27:15'') \<le> 160"
proof -
  have v: "report_inputs_valid demo (sample_station 0 True 1000)"
    by (simp add: report_inputs_valid_def sample_station_def demo_def Let_def)
  have r: "get_weather_report demo ''Now: '' (sample_station 0 True 1000) =
           Inr (demo_report ''Now: '' ''12:27:15'')"
    by (rule demo_report_metric) simp
  from report_length_bound [of demo "sample_station 0 True 1000" "''Now: ''"] v r
  show ?thesis by blast
qed

text \<open>
  C9. As stated the claim fails in its second half: \<open>update_units\<close> is declared \<open>void\<close>, so
  the caller is handed the same result whether the input was rejected or accepted. On a
  metric station, the rejected \<open>bogus\<close> and the accepted \<open>imperial\<close> return the same value.
\<close>

theorem update_units_returns_nothing:
  "fst (update_units ''bogus'' (sample_station 0 True 1000)) =
     fst (update_units ''imperial'' (sample_station 0 True 1000)) \<and>
   unit_type (snd (update_units ''bogus'' (sample_station 0 True 1000))) = ''metric'' \<and>
   unit_type (snd (update_units ''imperial'' (sample_station 0 True 1000))) = ''imperial''"
  by (simp add: update_units_def sample_station_def print_all_trace print_to_serial_def
      Let_def)

text \<open>
  C9, amended. For every input string that is neither \<open>metric\<close> nor \<open>imperial\<close>,
  \<open>update_units\<close> leaves the unit system and every other field unchanged and writes one
  line of rejection to the serial output; for the two recognized values it stores the
  value and writes a confirmation to the serial output. It returns no status in either
  case.
\<close>

theorem update_units_outcome:
  "(units_in \<noteq> ''imperial'' \<and> units_in \<noteq> ''metric'' \<longrightarrow>
      update_units units_in st =
        ((), st\<lparr>trace := trace st @ [Serial (PStr unit_type_message)]\<rparr>)) \<and>
   (units_in = ''imperial'' \<or> units_in = ''metric'' \<longrightarrow>
      update_units units_in st =
        ((), st\<lparr>unit_type := units_in,
                trace := trace st @
                  [Serial (PStr ''Units updated to: ''), Serial (PStr units_in),
                   Serial (PStr crlf)]\<rparr>))"
  by (simp add: update_units_def print_all_trace print_to_serial_def Let_def)

theorem update_units_outcome_witness:
  "''bogus'' \<noteq> ''imperial'' \<and> ''bogus'' \<noteq> ''metric'' \<and>
   update_units ''bogus'' (sample_station 0 True 1000) =
     ((), (sample_station 0 True 1000)\<lparr>trace := [Serial (PStr unit_type_message)]\<rparr>) \<and>
   update_units ''imperial'' (sample_station 0 True 1000) =
     ((), (sample_station 0 True 1000)
            \<lparr>unit_type := ''imperial'',
             trace := [Serial (PStr ''Units updated to: ''), Serial (PStr ''imperial''),
                       Serial (PStr crlf)]\<rparr>)"
proof -
  have h: "''bogus'' \<noteq> ''imperial'' \<and> ''bogus'' \<noteq> ''metric''" by simp
  have e: "trace (sample_station 0 True 1000) = []" by (simp add: sample_station_def)
  from update_units_outcome [of "''bogus''" "sample_station 0 True 1000"]
    update_units_outcome [of "''imperial''" "sample_station 0 True 1000"] h e
  show ?thesis by simp
qed

text \<open>
  C10. In every report that is returned, the pressure printed before \<open>hPc\<close> is the
  conversion to sea level called with the humidity of the last observation as its
  \<open>celsius\<close> argument, together with the pressure of the last observation and the
  altitude of the station: the humidity is what is added to 273.1 to give the kelvin term
  of the scale height. The converted pressure in the parentheses is computed from the
  same value; the temperature of the observation enters the temperature column only.
\<close>

theorem report_pressure_from_humidity:
  assumes "get_weather_report P intro st = Inr s"
  shows
    "let obs = last_observation st;
         kelvin = f_of_d P (d_add P (d_lit P ''273.1'') (d_of_f P (humidity obs)));
         scale_height =
           f_of_d P
             (d_div P (d_mul P (d_lit P ''287.1'') (d_of_f P kelvin)) (d_lit P ''9.807''));
         adjusted_pressure =
           f_mul P (pressure obs)
             (f_of_d P
                (d_pow P (d_lit P ''2.718281828182'')
                   (d_of_f P (f_div P (f_of_int P (location_altitude st)) scale_height))));
         slvl_press =
           f_div P (round_f P (f_mul P adjusted_pressure (f_of_int P 1000))) (f_of_int P 1000)
     in slvl_press =
          hpa_to_sea_level P st (humidity obs) (pressure obs) (location_altitude st) \<and>
        s = snprintf 160
              (report_format P intro (day_names ! unat (day obs))
                 (unat (hour obs)) (unat (minute obs)) (unat (second obs))
                 (dtostrf P
                    (d_of_f P
                       (if unit_type st = ''imperial''
                        then celsius_to_fahrenheit P (temperature obs)
                        else temperature obs)) 8 2)
                 (if unit_type st = ''imperial'' then ''F'' else ''C'')
                 (dtostrf P (d_of_f P (humidity obs)) 8 2)
                 (dtostrf P (d_of_f P slvl_press) 8 2)
                 (dtostrf P
                    (d_of_f P
                       (if unit_type st = ''imperial''
                        then hpa_to_in_mercury P slvl_press
                        else in_to_mm P (hpa_to_in_mercury P slvl_press))) 8 2)
                 (if unit_type st = ''imperial'' then ''in'' else ''mm''))"
proof -
  have conv: "hpa_to_sea_level P st (humidity (last_observation st))
      (pressure (last_observation st)) (location_altitude st) =
    f_div P
      (round_f P
         (f_mul P
            (f_mul P (pressure (last_observation st))
               (f_of_d P
                  (d_pow P (d_lit P ''2.718281828182'')
                     (d_of_f P
                        (f_div P (f_of_int P (location_altitude st))
                           (f_of_d P
                              (d_div P
                                 (d_mul P (d_lit P ''287.1'')
                                    (d_of_f P
                                       (f_of_d P
                                          (d_add P (d_lit P ''273.1'')
                                             (d_of_f P (humidity (last_observation st)))))))
                                 (d_lit P ''9.807''))))))))
            (f_of_int P 1000)))
      (f_of_int P 1000)"
    by (simp add: hpa_to_sea_level_def Let_def ATM_JOULES_PER_KILOGRAM_KELVIN_def
        GRAVITATIONAL_ACCELERATION_def E_CONSTANT_def)
  have "s = snprintf 160
           (report_format P intro (day_names ! unat (day (last_observation st)))
              (unat (hour (last_observation st)))
              (unat (minute (last_observation st)))
              (unat (second (last_observation st)))
              (dtostrf P
                 (d_of_f P
                    (if unit_type st = ''imperial''
                     then celsius_to_fahrenheit P (temperature (last_observation st))
                     else temperature (last_observation st))) 8 2)
              (if unit_type st = ''imperial'' then ''F'' else ''C'')
              (dtostrf P (d_of_f P (humidity (last_observation st))) 8 2)
              (dtostrf P
                 (d_of_f P
                    (hpa_to_sea_level P st (humidity (last_observation st))
                       (pressure (last_observation st)) (location_altitude st))) 8 2)
              (dtostrf P
                 (d_of_f P
                    (if unit_type st = ''imperial''
                     then hpa_to_in_mercury P
                            (hpa_to_sea_level P st (humidity (last_observation st))
                               (pressure (last_observation st)) (location_altitude st))
                     else in_to_mm P
                            (hpa_to_in_mercury P
                               (hpa_to_sea_level P st (humidity (last_observation st))
                                  (pressure (last_observation st)) (location_altitude st)))))
                 8 2)
              (if unit_type st = ''imperial'' then ''in'' else ''mm''))"
    using assms
    by (auto simp add: get_weather_report_def dtostrf_into_def int_to_day_def Let_def
        split: if_splits sum.splits)
  then show ?thesis
    by (simp add: Let_def conv)
qed

theorem report_pressure_from_humidity_witness:
  "get_weather_report bench ''Now: '' (sample_station 0 True 1000) =
     Inr (''Now: Conditions as of Wed. 12:27:15'' @ newline @
          ''   20.50 *C'' @ newline @
          ''   50.00 Humidity'' @ newline @
          '' 1026.18 hPc (  769.70 mm Hg)'' @ newline) \<and>
   humidity (last_observation (sample_station 0 True 1000)) = 0x42480000 \<and>
   temperature (last_observation (sample_station 0 True 1000)) = 0x41A40000 \<and>
   dtostrf bench
     (d_of_f bench
        (f_of_d bench
           (d_add bench (d_lit bench ''273.1'')
              (d_of_f bench (humidity (last_observation (sample_station 0 True 1000))))))) 8 2 =
     ''  323.10'' \<and>
   dtostrf bench
     (d_of_f bench
        (hpa_to_sea_level bench (sample_station 0 True 1000)
           (humidity (last_observation (sample_station 0 True 1000)))
           (pressure (last_observation (sample_station 0 True 1000)))
           (location_altitude (sample_station 0 True 1000)))) 8 2 = '' 1026.18'' \<and>
   dtostrf bench
     (d_of_f bench
        (hpa_to_sea_level bench (sample_station 0 True 1000)
           (temperature (last_observation (sample_station 0 True 1000)))
           (pressure (last_observation (sample_station 0 True 1000)))
           (location_altitude (sample_station 0 True 1000)))) 8 2 = '' 1027.49'' \<and>
   ''Now: Conditions as of Wed. 12:27:15'' @ newline @
   ''   20.50 *C'' @ newline @
   ''   50.00 Humidity'' @ newline @
   '' 1026.18 hPc (  769.70 mm Hg)'' @ newline =
     snprintf 160
       (report_format bench ''Now: '' ''Wed.'' 12 27 15 ''   20.50'' ''C'' ''   50.00''
          '' 1026.18'' ''  769.70'' ''mm'')"
proof -
  let ?st = "sample_station 0 True 1000"
  have r: "get_weather_report bench ''Now: '' ?st =
     Inr (''Now: Conditions as of Wed. 12:27:15'' @ newline @
          ''   20.50 *C'' @ newline @
          ''   50.00 Humidity'' @ newline @
          '' 1026.18 hPc (  769.70 mm Hg)'' @ newline)"
    using bench_report_metric [of "''Now: ''" 0 True 1000] by (simp add: bench_report_def)
  have f: "humidity (last_observation ?st) = 0x42480000"
    "temperature (last_observation ?st) = 0x41A40000"
    "pressure (last_observation ?st) = 0x447D5000"
    by (simp_all add: sample_station_def)
  have k: "dtostrf bench
     (d_of_f bench
        (f_of_d bench (d_add bench (d_lit bench ''273.1'') (d_of_f bench 0x42480000)))) 8 2 =
     ''  323.10''"
    by (simp add: bench_eval cong: let_weak_cong)
  have ph: "dtostrf bench
     (d_of_f bench (hpa_to_sea_level bench ?st 0x42480000 0x447D5000 (location_altitude ?st)))
     8 2 = '' 1026.18''"
    by (simp add: bench_eval sample_station_def cong: let_weak_cong)
  have pt: "dtostrf bench
     (d_of_f bench (hpa_to_sea_level bench ?st 0x41A40000 0x447D5000 (location_altitude ?st)))
     8 2 = '' 1027.49''"
    by (simp add: bench_eval sample_station_def cong: let_weak_cong)
  have e: "''Now: Conditions as of Wed. 12:27:15'' @ newline @
        ''   20.50 *C'' @ newline @
        ''   50.00 Humidity'' @ newline @
        '' 1026.18 hPc (  769.70 mm Hg)'' @ newline =
     snprintf 160
       (report_format bench ''Now: '' ''Wed.'' 12 27 15 ''   20.50'' ''C'' ''   50.00''
          '' 1026.18'' ''  769.70'' ''mm'')"
    using report_pressure_from_humidity [OF r]
    by (simp add: bench_eval sample_station_def day_names_def snprintf_def report_format_def
        newline_def cong: let_weak_cong)
  from r f(1) f(2) k ph pt e show ?thesis unfolding f by blast
qed

end
